theory Spec2Isabelle
  imports Complex_Main "HOL-Library.Word"
begin

unbundle bit_operations_syntax

section \<open>GmsDemo.cpp: the match pipeline of the GMS demonstration driver\<close>

text \<open>
  The driver loads two images, extracts ORB keypoints and descriptors, computes brute-force
  candidate matches once and runs the GMS filter under three (rotation, scale)
  configurations, showing each result in a window. The functions of GmsDemo.cpp are
  embedded one by one, with the source's names. Every call that leaves the driver (console
  output, the windowing toolkit, the extractor, the matcher, the GMS filter, the renderer)
  is recorded as an event, in program order, in a trace that the functions pass along.
  A call that raises ends the run there: the driver has no handler, so the trace of the
  run stops at that call.
  The operands that one statement chains into \<open>std::cout\<close> or \<open>std::cerr\<close> are one event,
  with the concatenated text.
\<close>

subsection \<open>Data model\<close>

type_synonym byte = "8 word"

text \<open>
  \<open>cv::Mat\<close>, restricted to the two-dimensional matrices the driver handles: the row and
  column counts and the pixel storage (\<open>None\<close> is the null data pointer of a matrix
  without storage).
\<close>

record Mat =
  rows :: nat
  cols :: nat
  data :: "byte list option"

record Size =
  width :: nat
  height :: nat

record KeyPoint =
  pt :: "real \<times> real"
  kp_size :: real
  angle :: real
  response :: real

record DMatch =
  queryIdx :: int
  trainIdx :: int
  imgIdx :: int
  distance :: real

text \<open>The configured extractor behind \<open>Ptr<Feature2D>\<close>; \<open>None\<close> is the null pointer.\<close>

record Feature2D =
  nfeatures :: int

text \<open>
  \<open>enum DETECTOR_TYPE {ORB}\<close>: a C++ enumeration is an integer type, and the \<open>default\<close>
  branch of \<open>createDetector\<close> is there for the values that are no enumerator.
\<close>

type_synonym DETECTOR_TYPE = int

definition ORB :: DETECTOR_TYPE where
  "ORB = 0"

definition MAX_FEATURES :: int where
  "MAX_FEATURES = 10000"

definition EXIT_SUCCESS :: int where
  "EXIT_SUCCESS = 0"

definition EXIT_FAILURE :: int where
  "EXIT_FAILURE = 1"

definition GMS_NO_RS_MATCHES_WINDOW_NAME :: string where
  "GMS_NO_RS_MATCHES_WINDOW_NAME = ''GMS No Rotation or Scale Support''"

definition GMS_RS_MATCHES_WINDOW_NAME :: string where
  "GMS_RS_MATCHES_WINDOW_NAME = ''GMS with Rotation and Scale Support''"

definition GMS_NRS_MATCHES_WINDOW_NAME :: string where
  "GMS_NRS_MATCHES_WINDOW_NAME = ''GMS with Scale Support and No Rotation''"

subsection \<open>The matrix operations the driver uses\<close>

text \<open>The default-constructed \<open>Mat\<close>: no rows, no columns, no storage.\<close>

definition Mat_default :: Mat where
  "Mat_default = \<lparr>rows = 0, cols = 0, data = None\<rparr>"

definition Mat_total :: "Mat \<Rightarrow> nat" where
  "Mat_total m = rows m * cols m"

text \<open>
  Modelled from the spec: \<open>cv::Mat::empty\<close> is OpenCV's and not part of the driver's
  source. An Image is either empty (no pixel storage, zero dimensions) or valid; OpenCV
  tests \<open>data == 0 || total() == 0\<close>.
\<close>

definition Mat_empty :: "Mat \<Rightarrow> bool" where
  "Mat_empty m = (data m = None \<or> Mat_total m = 0)"

text \<open>\<open>Mat::size()\<close> is \<open>Size(cols, rows)\<close>.\<close>

definition Mat_size :: "Mat \<Rightarrow> Size" where
  "Mat_size m = \<lparr>width = cols m, height = rows m\<rparr>"

subsection \<open>Events and external collaborators\<close>

datatype event =
    Imread string
  | NamedWindow string
  | ResizeWindow string nat nat
  | Imshow string Mat
  | WaitKey int
  | DestroyAllWindows
  | Cout string
  | Cerr string
  | DetectAndCompute Feature2D Mat
  | Match Mat Mat
  | MatchGMS Size Size "KeyPoint list" "KeyPoint list" "DMatch list" bool bool
  | DrawMatches Mat "KeyPoint list" Mat "KeyPoint list" "DMatch list"

text \<open>
  \<open>WaitKey 0\<close> is the call \<open>waitKey(0)\<close>: with a delay of zero the toolkit blocks until the
  user presses a key.
\<close>

text \<open>
  The collaborators whose algorithms lie outside the driver are parameters: the image
  decoder, the ORB extractor (from the configured extractor and the image to the keypoints
  and the descriptor matrix), the GMS filter and the pixels that the match renderer
  draws. Each is a function, so a collaborator is deterministic by construction.
\<close>

record collaborators =
  imdecode :: "byte list \<Rightarrow> Mat"
  orb :: "Feature2D \<Rightarrow> Mat \<Rightarrow> KeyPoint list \<times> Mat"
  gms :: "Size \<Rightarrow> Size \<Rightarrow> KeyPoint list \<Rightarrow> KeyPoint list \<Rightarrow> DMatch list
            \<Rightarrow> bool \<Rightarrow> bool \<Rightarrow> DMatch list"
  draw :: "Mat \<Rightarrow> KeyPoint list \<Rightarrow> Mat \<Rightarrow> KeyPoint list \<Rightarrow> DMatch list \<Rightarrow> byte list"

text \<open>The files of the working directory: a name has bytes or is absent.\<close>

type_synonym files = "string \<rightharpoonup> byte list"

text \<open>
  Modelled from the spec: \<open>cv::imread\<close> is OpenCV's. It decodes the file at the path and
  returns an empty Image on any decode failure, a missing file included; it never raises.
\<close>

definition imread :: "collaborators \<Rightarrow> files \<Rightarrow> string \<Rightarrow> Mat" where
  "imread c fs path = (case fs path of None \<Rightarrow> Mat_default | Some bytes \<Rightarrow> imdecode c bytes)"

text \<open>
  Modelled from the spec: \<open>cv::drawMatches\<close> is OpenCV's. The image it returns shows the
  two inputs side by side: its width is the sum of the two widths and its height the
  larger of the two heights, with storage allocated for the drawn pixels.
\<close>

definition drawMatches ::
  "collaborators \<Rightarrow> Mat \<Rightarrow> KeyPoint list \<Rightarrow> Mat \<Rightarrow> KeyPoint list \<Rightarrow> DMatch list \<Rightarrow> Mat" where
  "drawMatches c img1 kp1 img2 kp2 ms =
     \<lparr>rows = max (rows img1) (rows img2), cols = cols img1 + cols img2,
      data = Some (draw c img1 kp1 img2 kp2 ms)\<rparr>"

text \<open>\<open>ORB::create(nfeatures)\<close>: an extractor configured with its feature budget.\<close>

definition ORB_create :: "int \<Rightarrow> Feature2D" where
  "ORB_create n = \<lparr>nfeatures = n\<rparr>"

subsection \<open>isValidImage, createDetector, detectAndCompute\<close>

definition isValidImage :: "Mat \<Rightarrow> bool" where
  "isValidImage img = (\<not> Mat_empty img)"

definition createDetector :: "DETECTOR_TYPE \<Rightarrow> Feature2D option" where
  "createDetector detectorType =
     (if detectorType = ORB then Some (ORB_create MAX_FEATURES) else None)"

text \<open>
  The output parameters \<open>keyPoints\<close> and \<open>descriptors\<close> are passed in and returned, next to
  the boolean result and the trace.
\<close>

definition detectAndCompute ::
  "collaborators \<Rightarrow> DETECTOR_TYPE \<Rightarrow> Mat \<Rightarrow> KeyPoint list \<Rightarrow> Mat \<Rightarrow> event list
     \<Rightarrow> bool \<times> KeyPoint list \<times> Mat \<times> event list" where
  "detectAndCompute c detectorType img keyPoints descriptors tr =
     (case createDetector detectorType of
        None \<Rightarrow> (False, keyPoints, descriptors, tr)
      | Some detector \<Rightarrow>
          (let tr1 = tr @ [Cout (''Detecting keypoints for input image'' @ [CHR 0x0D, CHR 0x0A])];
               (kps, descs) = orb c detector img;
               tr2 = tr1 @ [DetectAndCompute detector img]
           in (True, kps, descs, tr2)))"

subsection \<open>computeMatches\<close>

definition popcount :: "byte \<Rightarrow> nat" where
  "popcount w = length (filter (bit w) [0..<8])"

fun hamming :: "byte list \<Rightarrow> byte list \<Rightarrow> nat" where
  "hamming (a # as) (b # bs) = popcount (a XOR b) + hamming as bs"
| "hamming _ _ = 0"

text \<open>Row \<open>i\<close> of a single-channel byte matrix stored row by row.\<close>

definition Mat_row :: "Mat \<Rightarrow> nat \<Rightarrow> byte list" where
  "Mat_row m i = take (cols m) (drop (i * cols m) (case data m of None \<Rightarrow> [] | Some d \<Rightarrow> d))"

text \<open>
  The closest train row among the candidates \<open>js\<close>, scanned in ascending order: a later row
  replaces the best one only when it is strictly closer, so ties go to the smaller index.
\<close>

fun closest :: "byte list \<Rightarrow> Mat \<Rightarrow> nat list \<Rightarrow> (nat \<times> nat) option \<Rightarrow> (nat \<times> nat) option" where
  "closest q t [] best = best"
| "closest q t (j # js) best =
     (let d = hamming q (Mat_row t j)
      in closest q t js
           (case best of
              None \<Rightarrow> Some (j, d)
            | Some (bj, bd) \<Rightarrow> if d < bd then Some (j, d) else Some (bj, bd)))"

text \<open>
  Modelled from the spec: \<open>BFMatcher::match\<close> is OpenCV's; the driver only creates the
  matcher with \<open>BFMatcher::create(NORM_HAMMING, false)\<close> and calls it. For every query row
  it returns the single closest train row under bitwise-Hamming distance, with ties broken
  by ascending train index and cross-check disabled. A query row for which no train row
  exists has no closest row and contributes no entry.
\<close>

definition BFMatcher_match :: "Mat \<Rightarrow> Mat \<Rightarrow> DMatch list" where
  "BFMatcher_match queryDesc trainDesc =
     concat (map (\<lambda>i. case closest (Mat_row queryDesc i) trainDesc [0..<rows trainDesc] None of
                         None \<Rightarrow> []
                       | Some (j, d) \<Rightarrow>
                           [\<lparr>queryIdx = int i, trainIdx = int j, imgIdx = 0, distance = real d\<rparr>])
                 [0..<rows queryDesc])"

definition computeMatches :: "Mat \<Rightarrow> Mat \<Rightarrow> event list \<Rightarrow> DMatch list \<times> event list" where
  "computeMatches descriptor1 descriptor2 tr =
     (let matches = BFMatcher_match descriptor1 descriptor2
      in (matches, tr @ [Match descriptor1 descriptor2]))"

subsection \<open>displayMatches, gmsCreateDisplayMatches\<close>

text \<open>How a call of the driver ends: it returns, or an exception leaves it.\<close>

datatype completion = Completed | Raised

text \<open>
  \<open>cv::imshow\<close> is OpenCV's. It asserts that the image has a positive width and height
  (\<open>CV_Assert(size.width>0 && size.height>0)\<close>) and raises \<open>cv::Exception\<close> otherwise; an
  image without storage cannot be shown either. So it raises exactly on the empty
  images, and the call is recorded in the trace either way.
\<close>

definition imshow :: "string \<Rightarrow> Mat \<Rightarrow> event list \<Rightarrow> completion \<times> event list" where
  "imshow winname img tr =
     (if Mat_empty img then Raised else Completed, tr @ [Imshow winname img])"

text \<open>
  \<open>displayMatches\<close> creates the window, resizes it and shows the image. It has no handler,
  so the exception of \<open>imshow\<close> leaves it, with the window already created.
\<close>

definition displayMatches :: "Mat \<Rightarrow> string \<Rightarrow> event list \<Rightarrow> completion \<times> event list" where
  "displayMatches imageMatches windowName tr =
     imshow windowName imageMatches
       (tr @ [NamedWindow windowName,
              ResizeWindow windowName (cols imageMatches) (rows imageMatches)])"

text \<open>The decimal text that the output stream prints for an unsigned size.\<close>

function to_decimal :: "nat \<Rightarrow> string" where
  "to_decimal n =
     (if n < 10 then [''0123456789'' ! n]
      else to_decimal (n div 10) @ [''0123456789'' ! (n mod 10)])"
  by pat_completeness auto
termination
  by (relation "measure id") auto

declare to_decimal.simps [simp del]

text \<open>
  The source passes \<open>image1.size()\<close> for both size arguments of \<open>matchGMS\<close>, and so does
  the embedding.
\<close>

definition gmsCreateDisplayMatches ::
  "collaborators \<Rightarrow> Mat \<Rightarrow> Mat \<Rightarrow> KeyPoint list \<Rightarrow> KeyPoint list \<Rightarrow> DMatch list
     \<Rightarrow> string \<Rightarrow> bool \<Rightarrow> bool \<Rightarrow> event list \<Rightarrow> completion \<times> event list" where
  "gmsCreateDisplayMatches c image1 image2 kp1 kp2 matchesAll windowName rotation scale tr =
     (let matchesGMS =
            gms c (Mat_size image1) (Mat_size image1) kp1 kp2 matchesAll rotation scale;
          tr1 = tr @ [MatchGMS (Mat_size image1) (Mat_size image1) kp1 kp2 matchesAll
                        rotation scale];
          tr2 = tr1 @ [Cout (''MatchGMS Size: '' @ to_decimal (length matchesGMS) @ [CHR 0x0A])];
          imageMatches = drawMatches c image1 kp1 image2 kp2 matchesGMS;
          tr3 = tr2 @ [DrawMatches image1 kp1 image2 kp2 matchesGMS];
          (shown, tr4) = displayMatches imageMatches windowName tr3
      in case shown of
           Raised \<Rightarrow> (Raised, tr4)
         | Completed \<Rightarrow> (Completed, tr4 @ [WaitKey 0]))"

subsection \<open>main\<close>

definition load_diagnostic :: string where
  "load_diagnostic =
     ''Unable to load images. Please check that dog01.jpg and ''
     @ ''dog02.jpg images exist in the same folder as the executable.'' @ [CHR 0x0D, CHR 0x0A]"

definition detect_diagnostic :: string where
  "detect_diagnostic =
     ''Invalid detector type provided. ''
     @ ''Unable to detect and compute keypoints and descriptors with ''
     @ ''selected detector type.'' @ [CHR 0x0D, CHR 0x0A]"

text \<open>
  How a run ends: \<open>main\<close> returns an exit status, or an exception that nothing catches
  terminates the program.
\<close>

datatype run_end = Exit int | Uncaught_exception

text \<open>The result of \<open>main\<close> is the end of the run and its trace.\<close>

definition main :: "collaborators \<Rightarrow> files \<Rightarrow> run_end \<times> event list" where
  "main c fs =
     (let dog01 = imread c fs ''dog01.jpg'';
          dog02 = imread c fs ''dog02.jpg'';
          tr0 = [Imread ''dog01.jpg'', Imread ''dog02.jpg''];
          (shown1, tr1) = displayMatches dog01 ''Dog01 Image'' tr0
      in case shown1 of
           Raised \<Rightarrow> (Uncaught_exception, tr1)
         | Completed \<Rightarrow>
      (let (shown2, tr2) = displayMatches dog02 ''Dog02 Image'' tr1
       in case shown2 of
            Raised \<Rightarrow> (Uncaught_exception, tr2)
          | Completed \<Rightarrow>
       if \<not> isValidImage dog01 \<or> \<not> isValidImage dog02 then
         (Exit EXIT_FAILURE, tr2 @ [Cerr load_diagnostic])
       else
         (let (img1detect, dog01KP, dog01Desc, tr3) =
                detectAndCompute c ORB dog01 [] Mat_default tr2;
              (img2detect, dog02KP, dog02Desc, tr4) =
                detectAndCompute c ORB dog02 [] Mat_default tr3
          in if \<not> img1detect \<or> \<not> img2detect then
               (Exit EXIT_FAILURE, tr4 @ [Cerr detect_diagnostic])
             else
               (let (matchesAll, tr5) = computeMatches dog01Desc dog02Desc tr4;
                    (done1, tr6) =
                      gmsCreateDisplayMatches c dog01 dog02 dog01KP dog02KP matchesAll
                        GMS_NO_RS_MATCHES_WINDOW_NAME False False tr5
                in case done1 of
                     Raised \<Rightarrow> (Uncaught_exception, tr6)
                   | Completed \<Rightarrow>
                (let (done2, tr7) =
                       gmsCreateDisplayMatches c dog01 dog02 dog01KP dog02KP matchesAll
                         GMS_RS_MATCHES_WINDOW_NAME True True tr6
                 in case done2 of
                      Raised \<Rightarrow> (Uncaught_exception, tr7)
                    | Completed \<Rightarrow>
                 (let (done3, tr8) =
                        gmsCreateDisplayMatches c dog01 dog02 dog01KP dog02KP matchesAll
                          GMS_NRS_MATCHES_WINDOW_NAME False True tr7
                  in case done3 of
                       Raised \<Rightarrow> (Uncaught_exception, tr8)
                     | Completed \<Rightarrow> (Exit EXIT_SUCCESS, tr8 @ [DestroyAllWindows])))))))"

subsection \<open>What a run shows\<close>

fun cerr_text :: "event \<Rightarrow> string list" where
  "cerr_text (Cerr s) = [s]"
| "cerr_text _ = []"

fun cout_text :: "event \<Rightarrow> string list" where
  "cout_text (Cout s) = [s]"
| "cout_text _ = []"

text \<open>The diagnostics written to the standard error stream, and the standard output.\<close>

definition diagnostics :: "event list \<Rightarrow> string list" where
  "diagnostics tr = concat (map cerr_text tr)"

definition stdout_of :: "event list \<Rightarrow> string" where
  "stdout_of tr = concat (concat (map cout_text tr))"

definition line_count :: "string \<Rightarrow> nat" where
  "line_count s = length (filter (\<lambda>ch. ch = CHR 0x0A) s)"

fun is_substring :: "string \<Rightarrow> string \<Rightarrow> bool" where
  "is_substring t [] = (t = [])"
| "is_substring t (x # xs) = (take (length t) (x # xs) = t \<or> is_substring t xs)"

text \<open>
  Modelled from the spec: the windowing toolkit is OpenCV's. A window is created under
  its name, or reused when the name has one, and closing all releases every window; the
  registry of open windows after a trace follows from its window events.
\<close>

fun window_step :: "event \<Rightarrow> string list \<Rightarrow> string list" where
  "window_step (NamedWindow n) ws = (if n \<in> set ws then ws else ws @ [n])"
| "window_step DestroyAllWindows ws = []"
| "window_step _ ws = ws"

definition open_windows :: "event list \<Rightarrow> string list" where
  "open_windows tr = fold window_step tr []"

text \<open>The calls of the feature pipeline: extraction, matching and GMS filtering.\<close>

fun is_pipeline_call :: "event \<Rightarrow> bool" where
  "is_pipeline_call (DetectAndCompute _ _) = True"
| "is_pipeline_call (Match _ _) = True"
| "is_pipeline_call (MatchGMS _ _ _ _ _ _ _) = True"
| "is_pipeline_call _ = False"

text \<open>The size arguments, the candidate list and the flags of each GMS call, in order.\<close>

fun gms_sizes :: "event \<Rightarrow> (Size \<times> Size) list" where
  "gms_sizes (MatchGMS s1 s2 _ _ _ _ _) = [(s1, s2)]"
| "gms_sizes _ = []"

fun gms_call :: "event \<Rightarrow> (DMatch list \<times> bool \<times> bool) list" where
  "gms_call (MatchGMS _ _ _ _ ms r s) = [(ms, r, s)]"
| "gms_call _ = []"

fun gms_keypoint_counts :: "event \<Rightarrow> (nat \<times> nat) list" where
  "gms_keypoint_counts (MatchGMS _ _ kp1 kp2 _ _ _) = [(length kp1, length kp2)]"
| "gms_keypoint_counts _ = []"

fun match_call :: "event \<Rightarrow> (Mat \<times> Mat) list" where
  "match_call (Match d1 d2) = [(d1, d2)]"
| "match_call _ = []"

text \<open>
  The events that filter the candidates, create a window, show an image, wait for the
  user and close the windows, each with all its arguments.
\<close>

fun is_filter_or_display :: "event \<Rightarrow> bool" where
  "is_filter_or_display (MatchGMS _ _ _ _ _ _ _) = True"
| "is_filter_or_display (NamedWindow _) = True"
| "is_filter_or_display (Imshow _ _) = True"
| "is_filter_or_display (WaitKey _) = True"
| "is_filter_or_display DestroyAllWindows = True"
| "is_filter_or_display _ = False"

text \<open>
  What is asked of a candidate list for the descriptor matrices \<open>(Q, T)\<close>: one entry per
  query row, every entry indexing a row of \<open>Q\<close> and a row of \<open>T\<close>.
\<close>

definition index_in_range :: "Mat \<Rightarrow> Mat \<Rightarrow> DMatch \<Rightarrow> bool" where
  "index_in_range q t m =
     (0 \<le> queryIdx m \<and> queryIdx m < int (rows q) \<and> 0 \<le> trainIdx m \<and> trainIdx m < int (rows t))"

definition candidates_ok :: "Mat \<Rightarrow> Mat \<Rightarrow> DMatch list \<Rightarrow> bool" where
  "candidates_ok q t ms = (length ms = rows q \<and> list_all (index_in_range q t) ms)"

subsection \<open>Sample collaborators and files\<close>

text \<open>
  Concrete collaborators on which the driver can be evaluated: the decoder makes a
  one-column image with one row per byte (no bytes, no image), the extractor returns one
  keypoint with a one-byte descriptor, the filter keeps every candidate and the renderer
  draws no pixel.
\<close>

definition sample_collaborators :: collaborators where
  "sample_collaborators =
     \<lparr>imdecode = (\<lambda>bytes. if bytes = [] then Mat_default
                          else \<lparr>rows = length bytes, cols = 1, data = Some bytes\<rparr>),
      orb = (\<lambda>detector img.
               ([\<lparr>pt = (0, 0), kp_size = 1, angle = 0, response = 1\<rparr>],
                \<lparr>rows = 1, cols = 1, data = Some [0]\<rparr>)),
      gms = (\<lambda>size1 size2 kp1 kp2 ms rotation scale. ms),
      draw = (\<lambda>img1 kp1 img2 kp2 ms. [])\<rparr>"

definition sample_files :: files where
  "sample_files = [''dog01.jpg'' \<mapsto> [1, 2], ''dog02.jpg'' \<mapsto> [1, 2, 3]]"

definition sample_files_more :: files where
  "sample_files_more = sample_files(''cat.jpg'' \<mapsto> [9])"

definition only_second_file :: files where
  "only_second_file = [''dog02.jpg'' \<mapsto> [1, 2, 3]]"

section \<open>The trace of a run\<close>

lemma createDetector_ORB: "createDetector ORB = Some (ORB_create MAX_FEATURES)"
  by (simp add: createDetector_def)

lemma detectAndCompute_ORB:
  "detectAndCompute c ORB img kps descs tr =
     (True, fst (orb c (ORB_create MAX_FEATURES) img), snd (orb c (ORB_create MAX_FEATURES) img),
      tr @ [Cout (''Detecting keypoints for input image'' @ [CHR 0x0D, CHR 0x0A]),
            DetectAndCompute (ORB_create MAX_FEATURES) img])"
  by (simp add: detectAndCompute_def createDetector_ORB split: prod.splits)

text \<open>Showing an image returns exactly when the image is valid.\<close>

lemma displayMatches_valid:
  "isValidImage img \<Longrightarrow>
   displayMatches img windowName tr =
     (Completed, tr @ [NamedWindow windowName, ResizeWindow windowName (cols img) (rows img),
                       Imshow windowName img])"
  by (simp add: displayMatches_def imshow_def isValidImage_def)

lemma displayMatches_invalid:
  "\<not> isValidImage img \<Longrightarrow>
   displayMatches img windowName tr =
     (Raised, tr @ [NamedWindow windowName, ResizeWindow windowName (cols img) (rows img),
                    Imshow windowName img])"
  by (simp add: displayMatches_def imshow_def isValidImage_def)

text \<open>
  A run with an invalid first image ends at the first \<open>imshow\<close>; a run with a valid first
  and an invalid second image ends at the second. Neither reaches the validity check.
\<close>

lemma main_invalid_first:
  assumes "\<not> isValidImage (imread c fs ''dog01.jpg'')"
  shows "main c fs =
     (Uncaught_exception,
      [Imread ''dog01.jpg'', Imread ''dog02.jpg'',
       NamedWindow ''Dog01 Image'',
       ResizeWindow ''Dog01 Image'' (cols (imread c fs ''dog01.jpg''))
         (rows (imread c fs ''dog01.jpg'')),
       Imshow ''Dog01 Image'' (imread c fs ''dog01.jpg'')])"
  by (simp add: main_def Let_def displayMatches_invalid [OF assms])

lemma main_invalid_second:
  assumes "isValidImage (imread c fs ''dog01.jpg'')"
    and "\<not> isValidImage (imread c fs ''dog02.jpg'')"
  shows "main c fs =
     (Uncaught_exception,
      [Imread ''dog01.jpg'', Imread ''dog02.jpg'',
       NamedWindow ''Dog01 Image'',
       ResizeWindow ''Dog01 Image'' (cols (imread c fs ''dog01.jpg''))
         (rows (imread c fs ''dog01.jpg'')),
       Imshow ''Dog01 Image'' (imread c fs ''dog01.jpg''),
       NamedWindow ''Dog02 Image'',
       ResizeWindow ''Dog02 Image'' (cols (imread c fs ''dog02.jpg''))
         (rows (imread c fs ''dog02.jpg'')),
       Imshow ''Dog02 Image'' (imread c fs ''dog02.jpg'')])"
  by (simp add: main_def Let_def displayMatches_valid [OF assms(1)]
      displayMatches_invalid [OF assms(2)])

text \<open>The image that \<open>drawMatches\<close> returns for a valid first image can be shown.\<close>

lemma drawMatches_valid:
  "isValidImage img1 \<Longrightarrow> isValidImage (drawMatches c img1 kp1 img2 kp2 ms)"
  by (auto simp: isValidImage_def Mat_empty_def Mat_total_def drawMatches_def)

text \<open>One call of \<open>gmsCreateDisplayMatches\<close> on a valid first image.\<close>

lemma gmsCreateDisplayMatches_valid:
  assumes "isValidImage image1"
  shows "gmsCreateDisplayMatches c image1 image2 kp1 kp2 matchesAll windowName rotation scale tr =
     (let size1 = Mat_size image1;
          matchesGMS = gms c size1 size1 kp1 kp2 matchesAll rotation scale;
          imageMatches = drawMatches c image1 kp1 image2 kp2 matchesGMS
      in (Completed,
          tr @ [MatchGMS size1 size1 kp1 kp2 matchesAll rotation scale,
                Cout (''MatchGMS Size: '' @ to_decimal (length matchesGMS) @ [CHR 0x0A]),
                DrawMatches image1 kp1 image2 kp2 matchesGMS,
                NamedWindow windowName,
                ResizeWindow windowName (cols imageMatches) (rows imageMatches),
                Imshow windowName imageMatches,
                WaitKey 0]))"
  by (simp add: gmsCreateDisplayMatches_def Let_def
      displayMatches_valid [OF drawMatches_valid [OF assms]])

text \<open>
  A run with two valid images: the extractor created for \<open>ORB\<close> is never null, so the
  second failure exit is not taken and the run goes through the three configurations.
\<close>

lemma main_valid:
  assumes "isValidImage (imread c fs ''dog01.jpg'')" and "isValidImage (imread c fs ''dog02.jpg'')"
  shows "main c fs =
     (let dog01 = imread c fs ''dog01.jpg'';
          dog02 = imread c fs ''dog02.jpg'';
          detector = ORB_create MAX_FEATURES;
          kp1 = fst (orb c detector dog01); d1 = snd (orb c detector dog01);
          kp2 = fst (orb c detector dog02); d2 = snd (orb c detector dog02);
          ms = BFMatcher_match d1 d2
      in (Exit EXIT_SUCCESS,
          [Imread ''dog01.jpg'', Imread ''dog02.jpg'',
           NamedWindow ''Dog01 Image'', ResizeWindow ''Dog01 Image'' (cols dog01) (rows dog01),
           Imshow ''Dog01 Image'' dog01,
           NamedWindow ''Dog02 Image'', ResizeWindow ''Dog02 Image'' (cols dog02) (rows dog02),
           Imshow ''Dog02 Image'' dog02,
           Cout (''Detecting keypoints for input image'' @ [CHR 0x0D, CHR 0x0A]),
           DetectAndCompute detector dog01,
           Cout (''Detecting keypoints for input image'' @ [CHR 0x0D, CHR 0x0A]),
           DetectAndCompute detector dog02,
           Match d1 d2]
          @ snd (gmsCreateDisplayMatches c dog01 dog02 kp1 kp2 ms
                   GMS_NO_RS_MATCHES_WINDOW_NAME False False [])
          @ snd (gmsCreateDisplayMatches c dog01 dog02 kp1 kp2 ms
                   GMS_RS_MATCHES_WINDOW_NAME True True [])
          @ snd (gmsCreateDisplayMatches c dog01 dog02 kp1 kp2 ms
                   GMS_NRS_MATCHES_WINDOW_NAME False True [])
          @ [DestroyAllWindows]))"
  by (simp add: main_def Let_def displayMatches_valid [OF assms(1)]
      displayMatches_valid [OF assms(2)] assms detectAndCompute_ORB computeMatches_def
      gmsCreateDisplayMatches_valid [OF assms(1)])

text \<open>What one call of \<open>gmsCreateDisplayMatches\<close> adds to the trace, seen through each projection.\<close>

lemma gms_sizes_gmsCreateDisplayMatches:
  "concat (map gms_sizes
     (snd (gmsCreateDisplayMatches c image1 image2 kp1 kp2 matchesAll windowName rotation scale [])))
   = [(Mat_size image1, Mat_size image1)]"
  by (simp add: gmsCreateDisplayMatches_def displayMatches_def imshow_def Let_def)

lemma gms_call_gmsCreateDisplayMatches:
  "concat (map gms_call
     (snd (gmsCreateDisplayMatches c image1 image2 kp1 kp2 matchesAll windowName rotation scale [])))
   = [(matchesAll, rotation, scale)]"
  by (simp add: gmsCreateDisplayMatches_def displayMatches_def imshow_def Let_def)

lemma match_call_gmsCreateDisplayMatches:
  "concat (map match_call
     (snd (gmsCreateDisplayMatches c image1 image2 kp1 kp2 matchesAll windowName rotation scale [])))
   = []"
  by (simp add: gmsCreateDisplayMatches_def displayMatches_def imshow_def Let_def)

text \<open>
  The windows of a run are closed only by the successful run: it ends with no window
  open. The driver's diagnostic for unloadable images is written in no run at all, since
  a run with an invalid image ends before the validity check.
\<close>

lemma successful_run_closes_windows:
  assumes "isValidImage (imread c fs ''dog01.jpg'')" and "isValidImage (imread c fs ''dog02.jpg'')"
  shows "open_windows (snd (main c fs)) = []"
  by (simp add: main_valid [OF assms] Let_def open_windows_def)

lemma diagnostic_never_written: "diagnostics (snd (main c fs)) = []"
proof (cases "isValidImage (imread c fs ''dog01.jpg'')")
  case False
  then show ?thesis
    by (simp add: main_invalid_first diagnostics_def)
next
  case first: True
  show ?thesis
  proof (cases "isValidImage (imread c fs ''dog02.jpg'')")
    case False
    with first show ?thesis
      by (simp add: main_invalid_second diagnostics_def)
  next
    case True
    with first show ?thesis
      by (simp add: main_valid Let_def diagnostics_def
          gmsCreateDisplayMatches_valid)
  qed
qed

text \<open>
  The diagnostic itself is one line and names both files; what fails is reaching it.
\<close>

lemma load_diagnostic_text:
  "is_substring ''dog01.jpg'' load_diagnostic \<and> is_substring ''dog02.jpg'' load_diagnostic
   \<and> line_count load_diagnostic = 1"
  by (simp add: load_diagnostic_def line_count_def)

section \<open>The sample run\<close>

lemma sample_images:
  "imread sample_collaborators sample_files ''dog01.jpg'' = \<lparr>rows = 2, cols = 1, data = Some [1, 2]\<rparr>"
  "imread sample_collaborators sample_files ''dog02.jpg''
     = \<lparr>rows = 3, cols = 1, data = Some [1, 2, 3]\<rparr>"
  by (simp_all add: imread_def sample_collaborators_def sample_files_def)

lemma sample_valid:
  "isValidImage (imread sample_collaborators sample_files ''dog01.jpg'')"
  "isValidImage (imread sample_collaborators sample_files ''dog02.jpg'')"
  by (simp_all add: isValidImage_def Mat_empty_def Mat_total_def sample_images)

lemma sample_sizes:
  "Mat_size (imread sample_collaborators sample_files ''dog01.jpg'') = \<lparr>width = 1, height = 2\<rparr>"
  "Mat_size (imread sample_collaborators sample_files ''dog02.jpg'') = \<lparr>width = 1, height = 3\<rparr>"
  by (simp_all add: Mat_size_def sample_images)

lemma only_second_invalid:
  "\<not> isValidImage (imread sample_collaborators only_second_file ''dog01.jpg'')"
  by (simp add: isValidImage_def Mat_empty_def imread_def only_second_file_def Mat_default_def)

lemma sample_orb:
  "orb sample_collaborators detector img =
     ([\<lparr>pt = (0, 0), kp_size = 1, angle = 0, response = 1\<rparr>], \<lparr>rows = 1, cols = 1, data = Some [0]\<rparr>)"
  by (simp add: sample_collaborators_def)

lemma sample_gms: "gms sample_collaborators size1 size2 kp1 kp2 ms rotation scale = ms"
  by (simp add: sample_collaborators_def)

lemma sample_draw: "draw sample_collaborators img1 kp1 img2 kp2 ms = []"
  by (simp add: sample_collaborators_def)

lemma sample_matches:
  "BFMatcher_match \<lparr>rows = 1, cols = 1, data = Some [0]\<rparr> \<lparr>rows = 1, cols = 1, data = Some [0]\<rparr>
     = [\<lparr>queryIdx = 0, trainIdx = 0, imgIdx = 0, distance = 0\<rparr>]"
  by code_simp

lemma sample_matches_Suc:
  "BFMatcher_match \<lparr>rows = Suc 0, cols = Suc 0, data = Some [0]\<rparr>
     \<lparr>rows = Suc 0, cols = Suc 0, data = Some [0]\<rparr>
     = [\<lparr>queryIdx = 0, trainIdx = 0, imgIdx = 0, distance = 0\<rparr>]"
  using sample_matches by simp

lemma to_decimal_Suc_0: "to_decimal (Suc 0) = ''1''"
  by (simp add: to_decimal.simps)

lemma sample_stdout:
  "stdout_of (snd (main sample_collaborators sample_files)) =
     ''Detecting keypoints for input image'' @ [CHR 0x0D, CHR 0x0A]
     @ ''Detecting keypoints for input image'' @ [CHR 0x0D, CHR 0x0A]
     @ ''MatchGMS Size: 1'' @ [CHR 0x0A] @ ''MatchGMS Size: 1'' @ [CHR 0x0A]
     @ ''MatchGMS Size: 1'' @ [CHR 0x0A]"
  by (simp add: main_valid [OF sample_valid] Let_def stdout_of_def
      gmsCreateDisplayMatches_valid [OF sample_valid(1)] sample_orb sample_gms
      sample_matches_Suc to_decimal_Suc_0)

lemma sample_match_example:
  "BFMatcher_match \<lparr>rows = 2, cols = 1, data = Some [3, 4]\<rparr>
     \<lparr>rows = 3, cols = 1, data = Some [7, 4, 3]\<rparr>
   = [\<lparr>queryIdx = 0, trainIdx = 2, imgIdx = 0, distance = 0\<rparr>,
      \<lparr>queryIdx = 1, trainIdx = 1, imgIdx = 0, distance = 0\<rparr>]"
  by code_simp

section \<open>The brute-force matcher\<close>

lemma closest_not_None:
  "best \<noteq> None \<or> js \<noteq> [] \<Longrightarrow> closest q t js best \<noteq> None"
  by (induction js arbitrary: best) (auto simp: Let_def split: option.splits)

lemma closest_index:
  "closest q t js best = Some (j, d) \<Longrightarrow> j \<in> set js \<or> (\<exists>bd. best = Some (j, bd))"
proof (induction js arbitrary: best)
  case Nil
  then show ?case by simp
next
  case (Cons k ks)
  from Cons.prems Cons.IH show ?case
    by (fastforce simp: Let_def split: option.splits if_splits)
qed

lemma closest_in_train:
  assumes "0 < rows t"
  obtains j d where "closest q t [0..<rows t] None = Some (j, d)" and "j < rows t"
proof -
  from assms have "[0..<rows t] \<noteq> []" by simp
  then have "closest q t [0..<rows t] None \<noteq> None"
    using closest_not_None by blast
  then obtain j d where eq: "closest q t [0..<rows t] None = Some (j, d)"
    by (cases "closest q t [0..<rows t] None") auto
  from closest_index [OF eq] have "j < rows t" by auto
  with eq show thesis by (rule that)
qed

lemma concat_map_singletons:
  "(\<And>x. x \<in> set xs \<Longrightarrow> f x = [g x]) \<Longrightarrow> concat (map f xs) = map g xs"
  by (induction xs) auto

text \<open>With at least one train row every query row has its closest row: one entry each.\<close>

lemma BFMatcher_match_nonempty_train:
  assumes "0 < rows t"
  shows "BFMatcher_match q t =
     map (\<lambda>i. \<lparr>queryIdx = int i,
                trainIdx = int (fst (the (closest (Mat_row q i) t [0..<rows t] None))),
                imgIdx = 0,
                distance = real (snd (the (closest (Mat_row q i) t [0..<rows t] None)))\<rparr>)
         [0..<rows q]"
  unfolding BFMatcher_match_def
proof (rule concat_map_singletons)
  fix i
  obtain j d where "closest (Mat_row q i) t [0..<rows t] None = Some (j, d)"
    using closest_in_train [OF assms] by blast
  then show "(case closest (Mat_row q i) t [0..<rows t] None of
               None \<Rightarrow> []
             | Some (j, d) \<Rightarrow> [\<lparr>queryIdx = int i, trainIdx = int j, imgIdx = 0, distance = real d\<rparr>])
        = [\<lparr>queryIdx = int i,
            trainIdx = int (fst (the (closest (Mat_row q i) t [0..<rows t] None))),
            imgIdx = 0,
            distance = real (snd (the (closest (Mat_row q i) t [0..<rows t] None)))\<rparr>]"
    by simp
qed

lemma BFMatcher_match_no_query: "rows q = 0 \<Longrightarrow> BFMatcher_match q t = []"
  by (simp add: BFMatcher_match_def)

text \<open>
  No list at all is a candidate list for a query row and an empty train matrix: it would
  need an entry, and the entry a train index below zero.
\<close>

lemma no_candidates_for_empty_train:
  assumes "rows t = 0" and "0 < rows q"
  shows "\<not> candidates_ok q t ms"
  using assms by (cases ms) (auto simp: candidates_ok_def index_in_range_def)

section \<open>Properties\<close>

text \<open>
  C1. The claim: for every pair of valid input images and every GMS configuration, the
  GMS call receives image1's size as its first size argument and image2's size as its
  second. The source passes \<open>image1.size()\<close> twice: in every run with two valid images
  each of the three GMS calls receives image1's size in both places. In the sample run
  the images are 1x2 and 1x3, and the second argument is 1x2 every time.
\<close>

theorem gms_size_arguments:
  assumes "isValidImage (imread c fs ''dog01.jpg'')" and "isValidImage (imread c fs ''dog02.jpg'')"
  shows "concat (map gms_sizes (snd (main c fs))) =
           [(Mat_size (imread c fs ''dog01.jpg''), Mat_size (imread c fs ''dog01.jpg'')),
            (Mat_size (imread c fs ''dog01.jpg''), Mat_size (imread c fs ''dog01.jpg'')),
            (Mat_size (imread c fs ''dog01.jpg''), Mat_size (imread c fs ''dog01.jpg''))]"
  by (simp add: main_valid [OF assms] Let_def gms_sizes_gmsCreateDisplayMatches)

theorem gms_size_arguments_witness:
  "concat (map gms_sizes (snd (main sample_collaborators sample_files))) =
     [(\<lparr>width = 1, height = 2\<rparr>, \<lparr>width = 1, height = 2\<rparr>),
      (\<lparr>width = 1, height = 2\<rparr>, \<lparr>width = 1, height = 2\<rparr>),
      (\<lparr>width = 1, height = 2\<rparr>, \<lparr>width = 1, height = 2\<rparr>)]
   \<and> Mat_size (imread sample_collaborators sample_files ''dog02.jpg'') = \<lparr>width = 1, height = 3\<rparr>"
  using gms_size_arguments [OF sample_valid] by (simp add: sample_sizes)

text \<open>
  C2. The claim: a run that ends with a fatal error emits exactly one diagnostic line,
  exits with a non-zero status and leaves no window open. The source shows both images
  before it checks them, and closes the windows only at the end of a successful run. A
  run with an invalid image is ended by the exception of \<open>imshow\<close> on that image: the
  driver writes no diagnostic, and the window created for the image (after the window of
  a valid first image) is still open.
\<close>

theorem fatal_run_windows:
  assumes "\<not> isValidImage (imread c fs ''dog01.jpg'') \<or> \<not> isValidImage (imread c fs ''dog02.jpg'')"
  shows "fst (main c fs) = Uncaught_exception
         \<and> diagnostics (snd (main c fs)) = []
         \<and> open_windows (snd (main c fs)) =
             (if isValidImage (imread c fs ''dog01.jpg'')
              then [''Dog01 Image'', ''Dog02 Image''] else [''Dog01 Image''])"
proof (cases "isValidImage (imread c fs ''dog01.jpg'')")
  case True
  with assms have "\<not> isValidImage (imread c fs ''dog02.jpg'')" by simp
  with True show ?thesis
    by (simp add: main_invalid_second diagnostics_def open_windows_def)
next
  case False
  then show ?thesis
    by (simp add: main_invalid_first diagnostics_def open_windows_def)
qed

theorem fatal_run_windows_witness:
  "fst (main sample_collaborators only_second_file) = Uncaught_exception
   \<and> diagnostics (snd (main sample_collaborators only_second_file)) = []
   \<and> open_windows (snd (main sample_collaborators only_second_file)) = [''Dog01 Image'']
   \<and> open_windows (snd (main sample_collaborators only_second_file)) \<noteq> []"
  using fatal_run_windows [of sample_collaborators only_second_file] only_second_invalid
  by simp

text \<open>
  C3, as amended. For descriptor matrices \<open>(Q, T)\<close> where \<open>T\<close> has at least one row or \<open>Q\<close>
  has none, the candidate list of \<open>computeMatches\<close> has exactly one entry per query row,
  the entry of row \<open>i\<close> having the query index \<open>i\<close>, and every entry has its query index in
  \<open>[0, |Q|)\<close> and its train index in \<open>[0, |T|)\<close>. The inputs left out are those with a query
  row and an empty \<open>T\<close>, where no list can be right.
\<close>

theorem computeMatches_candidates:
  assumes "0 < rows descriptor2 \<or> rows descriptor1 = 0"
  shows "candidates_ok descriptor1 descriptor2 (fst (computeMatches descriptor1 descriptor2 tr))
         \<and> map queryIdx (fst (computeMatches descriptor1 descriptor2 tr))
             = map int [0..<rows descriptor1]"
proof (cases "rows descriptor1 = 0")
  case True
  then show ?thesis
    by (simp add: computeMatches_def BFMatcher_match_no_query candidates_ok_def)
next
  case False
  with assms have train: "0 < rows descriptor2" by simp
  have "j < rows descriptor2"
    if "closest q descriptor2 [0..<rows descriptor2] None = Some (j, d)" for q j d
    using closest_index [OF that] by auto
  then have "fst (the (closest q descriptor2 [0..<rows descriptor2] None)) < rows descriptor2" for q
    using closest_in_train [OF train, of q] by (metis fst_conv option.sel)
  then show ?thesis
    by (simp add: computeMatches_def BFMatcher_match_nonempty_train [OF train]
        candidates_ok_def list_all_iff index_in_range_def comp_def)
qed

theorem computeMatches_candidates_witness:
  "candidates_ok \<lparr>rows = 2, cols = 1, data = Some [3, 4]\<rparr>
     \<lparr>rows = 3, cols = 1, data = Some [7, 4, 3]\<rparr>
     (fst (computeMatches \<lparr>rows = 2, cols = 1, data = Some [3, 4]\<rparr>
             \<lparr>rows = 3, cols = 1, data = Some [7, 4, 3]\<rparr> []))
   \<and> fst (computeMatches \<lparr>rows = 2, cols = 1, data = Some [3, 4]\<rparr>
             \<lparr>rows = 3, cols = 1, data = Some [7, 4, 3]\<rparr> [])
       = [\<lparr>queryIdx = 0, trainIdx = 2, imgIdx = 0, distance = 0\<rparr>,
          \<lparr>queryIdx = 1, trainIdx = 1, imgIdx = 0, distance = 0\<rparr>]
   \<and> candidates_ok Mat_default Mat_default (fst (computeMatches Mat_default Mat_default []))
   \<and> fst (computeMatches Mat_default Mat_default []) = []"
proof -
  have run: "fst (computeMatches \<lparr>rows = 2, cols = 1, data = Some [3, 4]\<rparr>
                    \<lparr>rows = 3, cols = 1, data = Some [7, 4, 3]\<rparr> [])
       = [\<lparr>queryIdx = 0, trainIdx = 2, imgIdx = 0, distance = 0\<rparr>,
          \<lparr>queryIdx = 1, trainIdx = 1, imgIdx = 0, distance = 0\<rparr>]"
    using sample_match_example by (simp add: computeMatches_def)
  have none: "fst (computeMatches Mat_default Mat_default []) = []"
    by (simp add: computeMatches_def BFMatcher_match_no_query Mat_default_def)
  have no_rows: "rows Mat_default = 0"
    by (simp add: Mat_default_def)
  show ?thesis
    using computeMatches_candidates
      [of "\<lparr>rows = 3, cols = 1, data = Some [7, 4, 3]\<rparr>"
          "\<lparr>rows = 2, cols = 1, data = Some [3, 4]\<rparr>" "[]"]
      computeMatches_candidates [of Mat_default Mat_default "[]"] run none no_rows
    by simp
qed

theorem computeMatches_empty_train_counterexample:
  "\<not> candidates_ok \<lparr>rows = 1, cols = 1, data = Some [0]\<rparr> Mat_default
       (fst (computeMatches \<lparr>rows = 1, cols = 1, data = Some [0]\<rparr> Mat_default []))"
  by (rule no_candidates_for_empty_train) (simp_all add: Mat_default_def)

text \<open>
  C4. For every image, \<open>isValidImage\<close> returns true if and only if the image has non-zero
  dimensions (rows and columns) and allocated pixel storage.
\<close>

theorem isValidImage_iff:
  "isValidImage img \<longleftrightarrow> (rows img \<noteq> 0 \<and> cols img \<noteq> 0 \<and> data img \<noteq> None)"
  by (auto simp: isValidImage_def Mat_empty_def Mat_total_def)

theorem isValidImage_iff_witness:
  "isValidImage \<lparr>rows = 2, cols = 3, data = Some [0, 0, 0, 0, 0, 0]\<rparr>
   \<and> \<not> isValidImage \<lparr>rows = 0, cols = 0, data = None\<rparr>
   \<and> \<not> isValidImage \<lparr>rows = 2, cols = 3, data = None\<rparr>"
  using isValidImage_iff [of "\<lparr>rows = 2, cols = 3, data = Some [0, 0, 0, 0, 0, 0]\<rparr>"]
    isValidImage_iff [of "\<lparr>rows = 0, cols = 0, data = None\<rparr>"]
    isValidImage_iff [of "\<lparr>rows = 2, cols = 3, data = None\<rparr>"]
  by simp

text \<open>
  C5. The claim: if either loaded input image is invalid, the driver emits a single
  diagnostic naming \<open>dog01.jpg\<close> and \<open>dog02.jpg\<close> and exits with a failure status, with no
  feature extraction, matching or GMS filtering. The source shows both images before the
  validity check, so a run with an invalid image ends at the \<open>imshow\<close> of that image: its
  last event is this call, the driver's diagnostic is not written, \<open>main\<close> does not return
  \<open>EXIT_FAILURE\<close>, and (the one part that holds) the feature pipeline is not run.
\<close>

theorem invalid_image_run_ends_at_imshow:
  assumes "\<not> isValidImage (imread c fs ''dog01.jpg'') \<or> \<not> isValidImage (imread c fs ''dog02.jpg'')"
  shows "last (snd (main c fs)) =
           (if isValidImage (imread c fs ''dog01.jpg'')
            then Imshow ''Dog02 Image'' (imread c fs ''dog02.jpg'')
            else Imshow ''Dog01 Image'' (imread c fs ''dog01.jpg''))
         \<and> diagnostics (snd (main c fs)) = []
         \<and> fst (main c fs) \<noteq> Exit EXIT_FAILURE
         \<and> filter is_pipeline_call (snd (main c fs)) = []"
proof (cases "isValidImage (imread c fs ''dog01.jpg'')")
  case True
  with assms have "\<not> isValidImage (imread c fs ''dog02.jpg'')" by simp
  with True show ?thesis
    by (simp add: main_invalid_second diagnostics_def)
next
  case False
  then show ?thesis
    by (simp add: main_invalid_first diagnostics_def)
qed

theorem invalid_image_run_ends_at_imshow_witness:
  "last (snd (main sample_collaborators only_second_file)) = Imshow ''Dog01 Image'' Mat_default
   \<and> Mat_empty Mat_default
   \<and> diagnostics (snd (main sample_collaborators only_second_file)) = []
   \<and> fst (main sample_collaborators only_second_file) \<noteq> Exit EXIT_FAILURE"
proof -
  have missing: "imread sample_collaborators only_second_file ''dog01.jpg'' = Mat_default"
    by (simp add: imread_def only_second_file_def)
  have "Mat_empty Mat_default"
    by (simp add: Mat_empty_def Mat_default_def)
  then show ?thesis
    using invalid_image_run_ends_at_imshow [of sample_collaborators only_second_file]
      only_second_invalid missing
    by simp
qed

text \<open>
  C6. For the \<open>ORB\<close> tag the factory returns an extractor configured with the feature
  budget \<open>MAX_FEATURES = 10000\<close>; for every other kind it returns null.
\<close>

theorem createDetector_kinds:
  "(detectorType = ORB \<longrightarrow>
      createDetector detectorType = Some (ORB_create MAX_FEATURES)
      \<and> nfeatures (ORB_create MAX_FEATURES) = 10000)
   \<and> (detectorType \<noteq> ORB \<longrightarrow> createDetector detectorType = None)"
  by (simp add: createDetector_def ORB_create_def MAX_FEATURES_def)

theorem createDetector_kinds_witness:
  "createDetector 0 = Some \<lparr>nfeatures = 10000\<rparr> \<and> createDetector 1 = None"
  using createDetector_kinds [of 0] createDetector_kinds [of 1]
  by (simp add: ORB_def ORB_create_def MAX_FEATURES_def)

text \<open>
  C7. For every detector kind and image, if the factory returns null then
  \<open>detectAndCompute\<close> returns false, its keypoint and descriptor outputs are what they were
  at the call (empty when they were passed in empty), and the trace is unchanged: the
  extractor is not invoked and nothing is printed.
\<close>

theorem detectAndCompute_null:
  assumes "createDetector detectorType = None"
  shows "detectAndCompute c detectorType img keyPoints descriptors tr
           = (False, keyPoints, descriptors, tr)"
  using assms by (simp add: detectAndCompute_def)

theorem detectAndCompute_null_witness:
  "createDetector 1 = None
   \<and> detectAndCompute sample_collaborators 1 \<lparr>rows = 1, cols = 1, data = Some [7]\<rparr> [] Mat_default []
       = (False, [], Mat_default, [])
   \<and> Mat_empty Mat_default"
proof -
  have null: "createDetector 1 = None"
    by (simp add: createDetector_def ORB_def)
  show ?thesis
    using detectAndCompute_null [OF null, of sample_collaborators
        "\<lparr>rows = 1, cols = 1, data = Some [7]\<rparr>" "[]" Mat_default "[]"] null
    by (simp add: Mat_empty_def Mat_default_def)
qed

text \<open>
  C8. In every successful run the matcher is called exactly once, on the two descriptor
  matrices, and the three GMS calls receive the candidate list of that one call, with the
  flags (false, false), then (true, true), then (false, true).
\<close>

theorem candidates_once_for_three_configurations:
  assumes "isValidImage (imread c fs ''dog01.jpg'')" and "isValidImage (imread c fs ''dog02.jpg'')"
  shows "fst (main c fs) = Exit EXIT_SUCCESS
         \<and> concat (map match_call (snd (main c fs))) =
             [(snd (orb c (ORB_create MAX_FEATURES) (imread c fs ''dog01.jpg'')),
               snd (orb c (ORB_create MAX_FEATURES) (imread c fs ''dog02.jpg'')))]
         \<and> concat (map gms_call (snd (main c fs))) =
             (let matchesAll =
                    fst (computeMatches
                           (snd (orb c (ORB_create MAX_FEATURES) (imread c fs ''dog01.jpg'')))
                           (snd (orb c (ORB_create MAX_FEATURES) (imread c fs ''dog02.jpg''))) [])
              in [(matchesAll, False, False), (matchesAll, True, True), (matchesAll, False, True)])"
  by (simp add: main_valid [OF assms] Let_def computeMatches_def
      gms_call_gmsCreateDisplayMatches match_call_gmsCreateDisplayMatches)

theorem candidates_once_for_three_configurations_witness:
  "fst (main sample_collaborators sample_files) = Exit 0
   \<and> concat (map match_call (snd (main sample_collaborators sample_files))) =
       [(\<lparr>rows = 1, cols = 1, data = Some [0]\<rparr>, \<lparr>rows = 1, cols = 1, data = Some [0]\<rparr>)]
   \<and> concat (map gms_call (snd (main sample_collaborators sample_files))) =
       [([\<lparr>queryIdx = 0, trainIdx = 0, imgIdx = 0, distance = 0\<rparr>], False, False),
        ([\<lparr>queryIdx = 0, trainIdx = 0, imgIdx = 0, distance = 0\<rparr>], True, True),
        ([\<lparr>queryIdx = 0, trainIdx = 0, imgIdx = 0, distance = 0\<rparr>], False, True)]"
  using candidates_once_for_three_configurations [OF sample_valid]
  by (simp add: sample_orb computeMatches_def sample_matches_Suc EXIT_SUCCESS_def Let_def)

text \<open>
  C9. Two runs with the same collaborators over working directories that hold the same
  bytes under \<open>dog01.jpg\<close> and under \<open>dog02.jpg\<close> are the same run: the same end and the
  same trace, hence the same keypoint counts, the same candidate count and the same
  printed GMS sizes.
\<close>

theorem identical_inputs_identical_runs:
  assumes "fs1 ''dog01.jpg'' = fs2 ''dog01.jpg''" and "fs1 ''dog02.jpg'' = fs2 ''dog02.jpg''"
  shows "main c fs1 = main c fs2
         \<and> concat (map gms_keypoint_counts (snd (main c fs1)))
             = concat (map gms_keypoint_counts (snd (main c fs2)))
         \<and> map (\<lambda>(ms, r, s). length ms) (concat (map gms_call (snd (main c fs1))))
             = map (\<lambda>(ms, r, s). length ms) (concat (map gms_call (snd (main c fs2))))
         \<and> stdout_of (snd (main c fs1)) = stdout_of (snd (main c fs2))"
proof -
  have "imread c fs1 ''dog01.jpg'' = imread c fs2 ''dog01.jpg''"
    and "imread c fs1 ''dog02.jpg'' = imread c fs2 ''dog02.jpg''"
    using assms by (simp_all add: imread_def)
  then have "main c fs1 = main c fs2"
    by (simp add: main_def)
  then show ?thesis by simp
qed

theorem identical_inputs_identical_runs_witness:
  "sample_files \<noteq> sample_files_more
   \<and> main sample_collaborators sample_files = main sample_collaborators sample_files_more
   \<and> stdout_of (snd (main sample_collaborators sample_files_more)) =
       ''Detecting keypoints for input image'' @ [CHR 0x0D, CHR 0x0A]
       @ ''Detecting keypoints for input image'' @ [CHR 0x0D, CHR 0x0A]
       @ ''MatchGMS Size: 1'' @ [CHR 0x0A] @ ''MatchGMS Size: 1'' @ [CHR 0x0A]
       @ ''MatchGMS Size: 1'' @ [CHR 0x0A]"
proof -
  have diff: "sample_files \<noteq> sample_files_more"
  proof
    assume "sample_files = sample_files_more"
    then have "sample_files ''cat.jpg'' = sample_files_more ''cat.jpg''" by simp
    then show False by (simp add: sample_files_more_def sample_files_def)
  qed
  have same: "sample_files ''dog01.jpg'' = sample_files_more ''dog01.jpg''"
    "sample_files ''dog02.jpg'' = sample_files_more ''dog02.jpg''"
    by (simp_all add: sample_files_more_def)
  show ?thesis
    using identical_inputs_identical_runs [OF same, of sample_collaborators] diff sample_stdout
    by simp
qed

text \<open>
  C10. In every successful run, each of the three configurations filters the candidates,
  shows the image drawn from its own result in its own window and then waits for a key
  press, the third configuration included; only after the third wait are the windows
  closed, by the last call of the run, and no window is closed before.
\<close>

theorem wait_after_every_configuration:
  assumes "isValidImage (imread c fs ''dog01.jpg'')" and "isValidImage (imread c fs ''dog02.jpg'')"
  shows "fst (main c fs) = Exit EXIT_SUCCESS
         \<and> last (snd (main c fs)) = DestroyAllWindows
         \<and> filter is_filter_or_display (snd (main c fs)) =
             (let dog01 = imread c fs ''dog01.jpg'';
                  dog02 = imread c fs ''dog02.jpg'';
                  kp1 = fst (orb c (ORB_create MAX_FEATURES) dog01);
                  kp2 = fst (orb c (ORB_create MAX_FEATURES) dog02);
                  matchesAll =
                    fst (computeMatches (snd (orb c (ORB_create MAX_FEATURES) dog01))
                           (snd (orb c (ORB_create MAX_FEATURES) dog02)) []);
                  size1 = Mat_size dog01;
                  result = (\<lambda>rotation scale.
                     drawMatches c dog01 kp1 dog02 kp2
                       (gms c size1 size1 kp1 kp2 matchesAll rotation scale))
              in [NamedWindow ''Dog01 Image'', Imshow ''Dog01 Image'' dog01,
                  NamedWindow ''Dog02 Image'', Imshow ''Dog02 Image'' dog02,
                  MatchGMS size1 size1 kp1 kp2 matchesAll False False,
                  NamedWindow GMS_NO_RS_MATCHES_WINDOW_NAME,
                  Imshow GMS_NO_RS_MATCHES_WINDOW_NAME (result False False),
                  WaitKey 0,
                  MatchGMS size1 size1 kp1 kp2 matchesAll True True,
                  NamedWindow GMS_RS_MATCHES_WINDOW_NAME,
                  Imshow GMS_RS_MATCHES_WINDOW_NAME (result True True),
                  WaitKey 0,
                  MatchGMS size1 size1 kp1 kp2 matchesAll False True,
                  NamedWindow GMS_NRS_MATCHES_WINDOW_NAME,
                  Imshow GMS_NRS_MATCHES_WINDOW_NAME (result False True),
                  WaitKey 0,
                  DestroyAllWindows])"
  by (simp add: main_valid [OF assms] Let_def computeMatches_def
      gmsCreateDisplayMatches_valid [OF assms(1)])

theorem wait_after_every_configuration_witness:
  "fst (main sample_collaborators sample_files) = Exit 0
   \<and> last (snd (main sample_collaborators sample_files)) = DestroyAllWindows
   \<and> filter is_filter_or_display (snd (main sample_collaborators sample_files)) =
       (let dog01 = \<lparr>rows = 2, cols = 1, data = Some [1, 2]\<rparr>;
            dog02 = \<lparr>rows = 3, cols = 1, data = Some [1, 2, 3]\<rparr>;
            kps = [\<lparr>pt = (0, 0), kp_size = 1, angle = 0, response = 1\<rparr>];
            matchesAll = [\<lparr>queryIdx = 0, trainIdx = 0, imgIdx = 0, distance = 0\<rparr>];
            size1 = \<lparr>width = 1, height = 2\<rparr>;
            result = \<lparr>rows = 3, cols = 2, data = Some []\<rparr>
        in [NamedWindow ''Dog01 Image'', Imshow ''Dog01 Image'' dog01,
            NamedWindow ''Dog02 Image'', Imshow ''Dog02 Image'' dog02,
            MatchGMS size1 size1 kps kps matchesAll False False,
            NamedWindow ''GMS No Rotation or Scale Support'',
            Imshow ''GMS No Rotation or Scale Support'' result,
            WaitKey 0,
            MatchGMS size1 size1 kps kps matchesAll True True,
            NamedWindow ''GMS with Rotation and Scale Support'',
            Imshow ''GMS with Rotation and Scale Support'' result,
            WaitKey 0,
            MatchGMS size1 size1 kps kps matchesAll False True,
            NamedWindow ''GMS with Scale Support and No Rotation'',
            Imshow ''GMS with Scale Support and No Rotation'' result,
            WaitKey 0,
            DestroyAllWindows])"
  using wait_after_every_configuration [OF sample_valid]
  by (simp add: Let_def sample_images sample_orb sample_gms sample_draw computeMatches_def
      sample_matches_Suc drawMatches_def Mat_size_def EXIT_SUCCESS_def
      GMS_NO_RS_MATCHES_WINDOW_NAME_def GMS_RS_MATCHES_WINDOW_NAME_def
      GMS_NRS_MATCHES_WINDOW_NAME_def)

end
